theory Spec2Isabelle
  imports Complex_Main
begin

section \<open>The stream session and alert policy of node.js\<close>

text \<open>
  JavaScript numbers are modelled as reals (prices, EMA values) and as integers
  (millisecond timestamps, periods); rounding, infinities and NaN of IEEE doubles are
  outside this part of the model.  The module-level maps of node.js (\<open>klineCache\<close>,
  \<open>emaCache\<close>, \<open>coinStates\<close>, \<open>lastAlerts\<close>, \<open>trainingData\<close>) are the fields of one
  state record, which every function takes and returns.  The outside world is part of the
  record as well: the alerts handed to Telegram, the JSON files below \<open>ml_data\<close>, the log
  file and the console.
\<close>

type_synonym symbol = string

datatype side = Above | Below

datatype crossType = Up | Down

record kline =
  k_time :: int
  k_open :: real
  k_high :: real
  k_low :: real
  k_close :: real
  k_volume :: real

text \<open>
  The price change that the label backfill computes is a quotient whose divisor, the
  close price of the point, can be 0: the result is then an infinity or \<open>NaN\<close>.  These
  are the values of that number.
\<close>

datatype jsnumber = Finite real | PosInfinity | NegInfinity | NotANumber

text \<open>
  The fields of a stored data point that the label backfill reads or writes; the
  indicator features of the point are never touched by it.  \<open>None\<close> is \<open>null\<close>.
\<close>

record dataPoint =
  dp_timestamp :: int
  dp_symbol :: symbol
  dp_close :: real
  future_price_change :: "jsnumber option"
  label :: "nat option"

record alert =
  a_symbol :: symbol
  a_crossType :: crossType
  a_price :: real
  a_ema :: real
  a_difference :: real
  a_prediction :: "real option"

datatype log_entry =
    CooldownSkipped symbol
  | CrossoverPrinted symbol crossType
  | PotentialCrossover symbol side
  | FuturePriceUpdated symbol jsnumber
  | ErrorLogged symbol

record node_state =
  klineCache :: "symbol \<rightharpoonup> kline list"
  emaCache :: "symbol \<rightharpoonup> real list"
  coinStates :: "symbol \<rightharpoonup> side"
  lastAlerts :: "symbol \<rightharpoonup> int"
  trainingData :: "symbol \<rightharpoonup> dataPoint list"
  mlDataFiles :: "symbol \<rightharpoonup> (string \<times> dataPoint list) list"
  alertsSent :: "alert list"
  fileLog :: "log_entry list"
  console :: "log_entry list"

text \<open>
  The ternary \<open>price > ema ? 'above' : 'below'\<close>, written out three times in node.js
  (in \<open>checkForCrossover\<close> and twice in \<open>processRealtimeCandle\<close>).
\<close>

definition crossState :: "real \<Rightarrow> real \<Rightarrow> side" where
  "crossState price ema = (if price > ema then Above else Below)"

text \<open>
  \<open>shouldAlert(symbol, currentState)\<close>.  \<open>Date.now()\<close> and the constant
  \<open>ALERT_COOLDOWN\<close> are parameters.  \<open>lastAlerts.get(symbol) || 0\<close> is 0 for a symbol
  without an entry.
\<close>

definition shouldAlert :: "int \<Rightarrow> int \<Rightarrow> symbol \<Rightarrow> side \<Rightarrow> node_state \<Rightarrow> bool \<times> node_state" where
  "shouldAlert cooldown now symbol currentState st =
     (let previousState = coinStates st symbol;
          lastAlertTime = (case lastAlerts st symbol of None \<Rightarrow> 0 | Some t \<Rightarrow> t)
      in if previousState \<noteq> Some currentState then
           (let st1 = st\<lparr>coinStates := (coinStates st)(symbol \<mapsto> currentState)\<rparr>
            in if now - lastAlertTime \<ge> cooldown
               then (True, st1\<lparr>lastAlerts := (lastAlerts st1)(symbol \<mapsto> now)\<rparr>)
               else (False, st1\<lparr>fileLog := fileLog st1 @ [CooldownSkipped symbol],
                                 console := console st1 @ [CooldownSkipped symbol]\<rparr>))
         else (False, st))"

text \<open>
  \<open>sendTelegramAlert\<close> and \<open>sendTelegramAlertWithML\<close>: one alert is handed to the
  notification channel; the prediction is present in the second form only.
\<close>

definition sendTelegramAlert :: "alert \<Rightarrow> node_state \<Rightarrow> node_state" where
  "sendTelegramAlert a st = st\<lparr>alertsSent := alertsSent st @ [a]\<rparr>"

text \<open>
  \<open>checkForCrossover(symbol, prevPrice, lastPrice, prevEMA, lastEMA)\<close>.  The result of
  the call to \<open>predictPriceMovement\<close> is the parameter \<open>prediction\<close> (\<open>None\<close> for
  \<open>null\<close>, also when predictions are disabled or the call failed).
\<close>

definition checkForCrossover ::
  "int \<Rightarrow> int \<Rightarrow> real option \<Rightarrow> symbol \<Rightarrow> real \<Rightarrow> real \<Rightarrow> real \<Rightarrow> real \<Rightarrow> node_state \<Rightarrow> node_state" where
  "checkForCrossover cooldown now prediction symbol prevPrice lastPrice prevEMA lastEMA st =
     (let currentState = crossState lastPrice lastEMA;
          difference = (lastPrice - lastEMA) / lastEMA * 100
      in if prevPrice < prevEMA \<and> lastPrice > lastEMA then
           (let st1 = st\<lparr>console := console st @ [CrossoverPrinted symbol Up]\<rparr>;
                r = shouldAlert cooldown now symbol currentState st1
            in if fst r
               then sendTelegramAlert
                      \<lparr>a_symbol = symbol, a_crossType = Up, a_price = lastPrice, a_ema = lastEMA,
                       a_difference = difference, a_prediction = prediction\<rparr> (snd r)
               else snd r)
         else if prevPrice > prevEMA \<and> lastPrice < lastEMA then
           (let st1 = st\<lparr>console := console st @ [CrossoverPrinted symbol Down]\<rparr>;
                r = shouldAlert cooldown now symbol currentState st1
            in if fst r
               then sendTelegramAlert
                      \<lparr>a_symbol = symbol, a_crossType = Down, a_price = lastPrice, a_ema = lastEMA,
                       a_difference = difference, a_prediction = prediction\<rparr> (snd r)
               else snd r)
         else st\<lparr>coinStates := (coinStates st)(symbol \<mapsto> currentState)\<rparr>)"

text \<open>
  A message of the candle stream after \<open>JSON.parse\<close>: the event type \<open>e\<close> and the candle
  \<open>k\<close> with its close price \<open>c\<close> (after \<open>parseFloat\<close>) and its closed flag \<open>x\<close>.
\<close>

record ws_kline =
  k_t :: int
  k_c :: real
  k_x :: bool


text \<open>\<open>processRealtimeCandle(symbol, kline, logUnconfirmed)\<close>.\<close>

definition processRealtimeCandle :: "symbol \<Rightarrow> ws_kline \<Rightarrow> bool \<Rightarrow> node_state \<Rightarrow> node_state" where
  "processRealtimeCandle symbol kline logUnconfirmed st =
     (case klineCache st symbol of
        None \<Rightarrow> st
      | Some klines \<Rightarrow>
          if klines = [] then st
          else
            (let currentPrice = k_c kline
             in case emaCache st symbol of
                  None \<Rightarrow> st
                | Some emaValues \<Rightarrow>
                    if length emaValues < 2 then st
                    else
                      (let lastClosedPrice = k_close (last klines);
                           lastEMA = last emaValues;
                           prevState = crossState lastClosedPrice lastEMA;
                           currentState = crossState currentPrice lastEMA
                       in if prevState \<noteq> currentState then
                            st\<lparr>console := console st @
                                  (if logUnconfirmed then [PotentialCrossover symbol currentState] else []),
                               fileLog := fileLog st @ [PotentialCrossover symbol currentState]\<rparr>
                          else st)))"


text \<open>A state to run the functions on: nothing cached, nothing sent.\<close>

definition emptyState :: node_state where
  "emptyState =
     \<lparr>klineCache = Map.empty, emaCache = Map.empty, coinStates = Map.empty,
      lastAlerts = Map.empty, trainingData = Map.empty, mlDataFiles = Map.empty,
      alertsSent = [], fileLog = [], console = []\<rparr>"

definition mkKline :: "int \<Rightarrow> real \<Rightarrow> kline" where
  "mkKline t c = \<lparr>k_time = t, k_open = c, k_high = c, k_low = c, k_close = c, k_volume = 0\<rparr>"

text \<open>The alert state of the cooldown scenario: BTCUSDT below, last alert at time 5000.\<close>

definition cooldownState :: node_state where
  "cooldownState =
     emptyState\<lparr>coinStates := [''BTCUSDT'' \<mapsto> Below], lastAlerts := [''BTCUSDT'' \<mapsto> 5000]\<rparr>"

subsection \<open>Label backfill\<close>

text \<open>\<open>Array.prototype.findIndex\<close>: the index of the first element that satisfies the test.\<close>

fun findIndex :: "('a \<Rightarrow> bool) \<Rightarrow> 'a list \<Rightarrow> nat option" where
  "findIndex P [] = None"
| "findIndex P (x # xs) = (if P x then Some 0 else map_option Suc (findIndex P xs))"

text \<open>
  The loop \<open>for (const file of files)\<close> of \<open>updateStoredDataPoint\<close> and of the
  collector's \<open>updateFuturePriceChange\<close>: the first file that holds a point satisfying
  the test is rewritten with that point updated; \<open>None\<close> when no file holds one.
\<close>

fun updateFiles ::
  "('a \<Rightarrow> bool) \<Rightarrow> ('a \<Rightarrow> 'a) \<Rightarrow> (string \<times> 'a list) list \<Rightarrow> (string \<times> 'a list) list option" where
  "updateFiles P f [] = None"
| "updateFiles P f ((name, data) # files) =
     (case findIndex P data of
        Some index \<Rightarrow> Some ((name, data[index := f (data ! index)]) # files)
      | None \<Rightarrow> map_option ((#) (name, data)) (updateFiles P f files))"

text \<open>
  The expression \<open>(currentPrice - originalPrice) / originalPrice * 100\<close> on two finite
  numbers.  A division by 0 gives an infinity with the sign of the dividend, and \<open>NaN\<close>
  for 0 / 0 (the zero is taken as positive).
\<close>

definition priceChangePercent :: "real \<Rightarrow> real \<Rightarrow> jsnumber" where
  "priceChangePercent currentPrice originalPrice =
     (if originalPrice = 0
      then (if currentPrice > 0 then PosInfinity
            else if currentPrice < 0 then NegInfinity
            else NotANumber)
      else Finite ((currentPrice - originalPrice) / originalPrice * 100))"

text \<open>The test \<open>priceChange >= 0\<close>.\<close>

fun geZero :: "jsnumber \<Rightarrow> bool" where
  "geZero (Finite r) = (r \<ge> 0)"
| "geZero PosInfinity = True"
| "geZero NegInfinity = False"
| "geZero NotANumber = False"

text \<open>\<open>JSON.stringify\<close> writes a finite number as it is and \<open>null\<close> for an infinity or \<open>NaN\<close>.\<close>

fun jsonNumber :: "jsnumber \<Rightarrow> jsnumber option" where
  "jsonNumber (Finite r) = Some (Finite r)"
| "jsonNumber PosInfinity = None"
| "jsonNumber NegInfinity = None"
| "jsonNumber NotANumber = None"

text \<open>
  The two assignments \<open>d.future_price_change = priceChange; d.label = priceChange >= 0 ? 1 : 0\<close>
  on a point in memory.
\<close>

definition setLabel :: "jsnumber \<Rightarrow> dataPoint \<Rightarrow> dataPoint" where
  "setLabel priceChange d =
     d\<lparr>future_price_change := Some priceChange,
       label := Some (if geZero priceChange then 1 else 0)\<rparr>"

text \<open>
  The same two assignments on a point of a parsed file that is then written back with
  \<open>JSON.stringify\<close>: what a later \<open>JSON.parse\<close> of the file gives.
\<close>

definition setStoredLabel :: "jsnumber \<Rightarrow> dataPoint \<Rightarrow> dataPoint" where
  "setStoredLabel priceChange d =
     d\<lparr>future_price_change := jsonNumber priceChange,
       label := Some (if geZero priceChange then 1 else 0)\<rparr>"

text \<open>\<open>updateStoredDataPoint(symbol, timestamp, priceChange)\<close> of node.js.\<close>

definition updateStoredDataPoint :: "symbol \<Rightarrow> int \<Rightarrow> jsnumber \<Rightarrow> node_state \<Rightarrow> bool \<times> node_state" where
  "updateStoredDataPoint symbol timestamp priceChange st =
     (case mlDataFiles st symbol of
        None \<Rightarrow> (False, st)
      | Some files \<Rightarrow>
          (case updateFiles (\<lambda>d. dp_timestamp d = timestamp) (setStoredLabel priceChange) files of
             Some files' \<Rightarrow> (True, st\<lparr>mlDataFiles := (mlDataFiles st)(symbol \<mapsto> files')\<rparr>)
           | None \<Rightarrow> (False, st)))"

text \<open>
  \<open>updateFuturePriceChange(symbol, timestamp)\<close> of node.js.  The answer of
  \<open>getCurrentPrice\<close> is the parameter \<open>currentPrice\<close>, \<open>None\<close> when the request
  threw.  \<open>log\<close> writes its line to the console and to the log file.  The CSV export
  that ends the function rewrites a file derived from \<open>trainingData\<close> and is not part of
  the state.
\<close>

definition updateFuturePriceChange :: "real option \<Rightarrow> symbol \<Rightarrow> int \<Rightarrow> node_state \<Rightarrow> node_state" where
  "updateFuturePriceChange currentPrice symbol timestamp st =
     (case trainingData st symbol of
        None \<Rightarrow> st
      | Some data \<Rightarrow>
          (case findIndex (\<lambda>d. dp_timestamp d = timestamp) data of
             None \<Rightarrow> st
           | Some index \<Rightarrow>
               (case currentPrice of
                  None \<Rightarrow> st\<lparr>fileLog := fileLog st @ [ErrorLogged symbol],
                              console := console st @ [ErrorLogged symbol]\<rparr>
                | Some price \<Rightarrow>
                    (let originalPrice = dp_close (data ! index);
                         priceChange = priceChangePercent price originalPrice;
                         st1 = st\<lparr>trainingData :=
                                    (trainingData st)(symbol \<mapsto> data[index := setLabel priceChange (data ! index)]),
                                  fileLog := fileLog st @ [FuturePriceUpdated symbol priceChange],
                                  console := console st @ [FuturePriceUpdated symbol priceChange]\<rparr>
                     in snd (updateStoredDataPoint symbol timestamp priceChange st1)))))"

text \<open>
  \<open>updateFuturePriceChange(symbol, timestamp, priceChange)\<close> of ml\_data\_collector.js,
  on the files of one symbol directory (\<open>None\<close> when the directory does not exist).  Its
  points carry the field \<open>futurePriceChange\<close>; the files hold what \<open>JSON.stringify\<close>
  wrote.
\<close>

record collectedPoint =
  cp_timestamp :: int
  futurePriceChange :: "jsnumber option"

definition updateFuturePriceChange_collector ::
  "int \<Rightarrow> jsnumber \<Rightarrow> (string \<times> collectedPoint list) list option
     \<Rightarrow> bool \<times> (string \<times> collectedPoint list) list option" where
  "updateFuturePriceChange_collector timestamp priceChange dir =
     (case dir of
        None \<Rightarrow> (False, None)
      | Some files \<Rightarrow>
          (case updateFiles (\<lambda>d. cp_timestamp d = timestamp)
                  (\<lambda>d. d\<lparr>futurePriceChange := jsonNumber priceChange\<rparr>) files of
             Some files' \<Rightarrow> (True, Some files')
           | None \<Rightarrow> (False, Some files)))"

definition mkPoint :: "symbol \<Rightarrow> int \<Rightarrow> real \<Rightarrow> dataPoint" where
  "mkPoint s t c =
     \<lparr>dp_timestamp = t, dp_symbol = s, dp_close = c, future_price_change = None, label = None\<rparr>"

text \<open>
  The state a backfill leaves when it found its point at index \<open>i\<close> of \<open>data\<close> and
  computed the change \<open>pc\<close>: the point in memory relabelled, a log line, and the first
  matching point on disk relabelled.
\<close>

definition backfilled :: "jsnumber \<Rightarrow> symbol \<Rightarrow> int \<Rightarrow> node_state \<Rightarrow> dataPoint list \<Rightarrow> nat \<Rightarrow> node_state" where
  "backfilled pc s ts st data i =
     st\<lparr>trainingData := (trainingData st)(s \<mapsto> data[i := setLabel pc (data ! i)]),
        fileLog := fileLog st @ [FuturePriceUpdated s pc],
        console := console st @ [FuturePriceUpdated s pc],
        mlDataFiles :=
          (case mlDataFiles st s of
             None \<Rightarrow> mlDataFiles st
           | Some files \<Rightarrow>
               (case updateFiles (\<lambda>d. dp_timestamp d = ts) (setStoredLabel pc) files of
                  Some files' \<Rightarrow> (mlDataFiles st)(s \<mapsto> files')
                | None \<Rightarrow> mlDataFiles st))\<rparr>"

text \<open>
  One point of BTCUSDT closed at 100, in memory and in the file of its month, and the same
  with a second symbol whose point closed at 0.
\<close>

definition backfillState :: node_state where
  "backfillState =
     emptyState\<lparr>trainingData := [''BTCUSDT'' \<mapsto> [mkPoint ''BTCUSDT'' 1000 100],
                                  ''NEWUSDT'' \<mapsto> [mkPoint ''NEWUSDT'' 1000 0]],
                 mlDataFiles := [''BTCUSDT'' \<mapsto> [(''2024-01.json'', [mkPoint ''BTCUSDT'' 1000 100])],
                                 ''NEWUSDT'' \<mapsto> [(''2024-01.json'', [mkPoint ''NEWUSDT'' 1000 0])]]\<rparr>"


section \<open>The indicator engine (technical indicators module)\<close>

text \<open>
  The values an array element can have here: a finite number, \<open>NaN\<close>, \<open>null\<close> or
  \<open>undefined\<close>.  Strings, booleans, objects and the infinities are outside the model.
  An argument is an array of such values or something that is not an array.  A thrown
  \<open>Error\<close> is the left injection of the result, with its message.
\<close>

datatype jsval = Num real | NaN | Null | Undefined

datatype 'a jsarg = NotArray | Array "'a list"

datatype error = Error string

text \<open>\<open>Number(v)\<close>, with \<open>None\<close> for the result \<open>NaN\<close>.\<close>

fun toNumber :: "jsval \<Rightarrow> real option" where
  "toNumber (Num r) = Some r"
| "toNumber NaN = None"
| "toNumber Null = Some 0"
| "toNumber Undefined = None"

text \<open>The number behind a value that validation has accepted.\<close>

definition numOf :: "jsval \<Rightarrow> real" where
  "numOf v = (case toNumber v of Some r \<Rightarrow> r | None \<Rightarrow> 0)"

text \<open>The operators \<open>-\<close> and \<open>*\<close> and the comparison \<open>>=\<close> of JavaScript on these values.\<close>

definition jsSub :: "jsval \<Rightarrow> jsval \<Rightarrow> jsval" where
  "jsSub a b = (case (toNumber a, toNumber b) of (Some x, Some y) \<Rightarrow> Num (x - y) | _ \<Rightarrow> NaN)"

definition jsMul :: "jsval \<Rightarrow> jsval \<Rightarrow> jsval" where
  "jsMul a b = (case (toNumber a, toNumber b) of (Some x, Some y) \<Rightarrow> Num (x * y) | _ \<Rightarrow> NaN)"

definition jsGe :: "jsval \<Rightarrow> jsval \<Rightarrow> bool" where
  "jsGe a b = (case (toNumber a, toNumber b) of (Some x, Some y) \<Rightarrow> x \<ge> y | _ \<Rightarrow> False)"

definition elements :: "'a jsarg \<Rightarrow> 'a list" where
  "elements a = (case a of NotArray \<Rightarrow> [] | Array xs \<Rightarrow> xs)"

definition rethrow :: "string \<Rightarrow> error \<Rightarrow> error" where
  "rethrow functionName e = (case e of Error m \<Rightarrow> Error (functionName @ '': '' @ m))"

text \<open>\<open>validatePriceData(prices, minLength, functionName)\<close>.\<close>

definition validatePriceData :: "jsval jsarg \<Rightarrow> int \<Rightarrow> string \<Rightarrow> error + bool" where
  "validatePriceData prices minLength functionName =
     (case prices of
        NotArray \<Rightarrow> Inl (Error (functionName @ '': Prices must be an array''))
      | Array ps \<Rightarrow>
          if int (length ps) < minLength then Inr False
          else if list_ex (\<lambda>price. price = Null \<or> price = Undefined \<or> toNumber price = None) ps
          then Inl (Error (functionName @ '': All prices must be valid numbers''))
          else Inr True)"

text \<open>\<open>padArray(array, targetLength, padValue, padStart)\<close>.\<close>

definition padArray :: "'a list \<Rightarrow> nat \<Rightarrow> 'a \<Rightarrow> bool \<Rightarrow> 'a list" where
  "padArray array targetLength padValue padStart =
     (if length array \<ge> targetLength then array
      else (let padding = replicate (targetLength - length array) padValue
            in if padStart then padding @ array else array @ padding))"

subsection \<open>EMA\<close>

text \<open>
  The loop \<open>for (i = period; i < prices.length; i++) { ema = (prices[i] - ema) * k + ema;
  emaValues.push(ema) }\<close>, run over the prices from index \<open>period\<close> on.
\<close>

fun emaLoop :: "real \<Rightarrow> real \<Rightarrow> real list \<Rightarrow> real list" where
  "emaLoop k ema [] = []"
| "emaLoop k ema (p # ps) = ((p - ema) * k + ema) # emaLoop k ((p - ema) * k + ema) ps"

definition calculateEMA :: "jsval jsarg \<Rightarrow> int \<Rightarrow> error + jsval list" where
  "calculateEMA prices period =
     (if period \<le> 0 then Inl (Error ''calculateEMA: Period must be a positive integer'')
      else
        (case validatePriceData prices period ''calculateEMA'' of
           Inl e \<Rightarrow> Inl e
         | Inr ok \<Rightarrow>
             (let ps = elements prices
              in if \<not> ok
                 then Inr (padArray [] (length ps) (if length ps > 0 then ps ! 0 else Num 0) True)
                 else
                   (let k = 2 / (real_of_int period + 1);
                        xs = map numOf ps;
                        sum = sum_list (take (nat period) xs);
                        ema = sum / real_of_int period;
                        emaValues = ema # emaLoop k ema (drop (nat period) xs)
                    in Inr (padArray (map Num emaValues) (length ps) (ps ! 0) True)))))"

subsection \<open>RSI\<close>

text \<open>The first loop over \<open>changes[0 .. period - 1]\<close>: the sums of the gains and of the losses.\<close>

fun rsiSums :: "real \<times> real \<Rightarrow> real list \<Rightarrow> real \<times> real" where
  "rsiSums (gains, losses) [] = (gains, losses)"
| "rsiSums (gains, losses) (c # cs) =
     (if c \<ge> 0 then rsiSums (gains + c, losses) cs else rsiSums (gains, losses - c) cs)"

text \<open>The branch \<open>losses === 0\<close> and the RSI formula, written twice in the source.\<close>

definition rsiOf :: "real \<Rightarrow> real \<Rightarrow> real" where
  "rsiOf gains losses = (if losses = 0 then 100 else 100 - 100 / (1 + gains / losses))"

text \<open>The second loop, over \<open>changes[period ..]\<close>, with Wilder smoothing.\<close>

fun rsiLoop :: "real \<Rightarrow> real \<times> real \<Rightarrow> real list \<Rightarrow> real list" where
  "rsiLoop period (gains, losses) [] = []"
| "rsiLoop period (gains, losses) (c # cs) =
     (let g = (if c \<ge> 0 then (gains * (period - 1) + c) / period else (gains * (period - 1)) / period);
          l = (if c \<ge> 0 then (losses * (period - 1)) / period else (losses * (period - 1) - c) / period)
      in rsiOf g l # rsiLoop period (g, l) cs)"

definition calculateRSI :: "jsval jsarg \<Rightarrow> int \<Rightarrow> error + jsval list" where
  "calculateRSI prices period =
     (if period \<le> 0 then Inl (Error ''calculateRSI: Period must be a positive integer'')
      else
        (case validatePriceData prices (period + 1) ''calculateRSI'' of
           Inl e \<Rightarrow> Inl e
         | Inr ok \<Rightarrow>
             (let ps = elements prices
              in if \<not> ok then Inr (padArray [] (length ps) (Num 50) True)
                 else
                   (let xs = map numOf ps;
                        changes = map (\<lambda>i. xs ! i - xs ! (i - 1)) [1..<length xs];
                        first = rsiSums (0, 0) (take (nat period) changes);
                        rsiValues = rsiOf (fst first) (snd first)
                                    # rsiLoop (real_of_int period) first (drop (nat period) changes)
                    in Inr (padArray (map Num rsiValues) (length ps) (Num 50) True)))))"

subsection \<open>Bollinger Bands\<close>

record bands =
  upper :: "jsval list"
  middle :: "jsval list"
  lower :: "jsval list"

text \<open>
  One round of the loop over \<open>i\<close>: the average and the population standard deviation of
  \<open>prices[i - (period - 1) .. i]\<close>, and the three values pushed.
\<close>

definition bandAt :: "real list \<Rightarrow> nat \<Rightarrow> real \<Rightarrow> nat \<Rightarrow> real \<times> real \<times> real" where
  "bandAt xs period multiplier i =
     (let window = map (\<lambda>j. xs ! j) [i - (period - 1)..<i + 1];
          sma = sum_list window / real period;
          sumSquaredDiff = sum_list (map (\<lambda>x. (x - sma) ^ 2) window);
          stdDev = sqrt (sumSquaredDiff / real period)
      in (sma + multiplier * stdDev, sma, sma - multiplier * stdDev))"

definition calculateBollingerBands :: "jsval jsarg \<Rightarrow> int \<Rightarrow> real \<Rightarrow> error + bands" where
  "calculateBollingerBands prices period multiplier =
     (if period \<le> 0
      then Inl (Error ''calculateBollingerBands: Period must be a positive integer'')
      else if multiplier \<le> 0
      then Inl (Error ''calculateBollingerBands: Multiplier must be a positive number'')
      else
        (case validatePriceData prices period ''calculateBollingerBands'' of
           Inl e \<Rightarrow> Inl e
         | Inr ok \<Rightarrow>
             (let ps = elements prices;
                  defaultValue = (if length ps > 0 then ps ! 0 else Num 0)
              in if \<not> ok
                 then Inr \<lparr>upper = replicate (length ps) (jsMul defaultValue (Num (11 / 10))),
                           middle = replicate (length ps) defaultValue,
                           lower = replicate (length ps) (jsMul defaultValue (Num (9 / 10)))\<rparr>
                 else
                   (let xs = map numOf ps;
                        rounds = map (bandAt xs (nat period) multiplier) [nat period - 1..<length xs]
                    in Inr \<lparr>upper = padArray (map (\<lambda>r. Num (fst r)) rounds) (length ps)
                                        (jsMul defaultValue (Num (11 / 10))) True,
                             middle = padArray (map (\<lambda>r. Num (fst (snd r))) rounds) (length ps)
                                        defaultValue True,
                             lower = padArray (map (\<lambda>r. Num (snd (snd r))) rounds) (length ps)
                                        (jsMul defaultValue (Num (9 / 10))) True\<rparr>))))"

subsection \<open>MACD\<close>

record macdResult =
  macd :: "jsval list"
  signal :: "jsval list"
  histogram :: "jsval list"

definition calculateMACD :: "jsval jsarg \<Rightarrow> int \<Rightarrow> int \<Rightarrow> int \<Rightarrow> error + macdResult" where
  "calculateMACD prices fastPeriod slowPeriod signalPeriod =
     (if fastPeriod \<le> 0
      then Inl (Error ''calculateMACD: Fast period must be a positive integer'')
      else if slowPeriod \<le> 0
      then Inl (Error ''calculateMACD: Slow period must be a positive integer'')
      else if signalPeriod \<le> 0
      then Inl (Error ''calculateMACD: Signal period must be a positive integer'')
      else
        (case validatePriceData prices (max fastPeriod slowPeriod) ''calculateMACD'' of
           Inl e \<Rightarrow> Inl e
         | Inr ok \<Rightarrow>
             (let ps = elements prices
              in if \<not> ok
                 then Inr \<lparr>macd = replicate (length ps) (Num 0),
                           signal = replicate (length ps) (Num 0),
                           histogram = replicate (length ps) (Num 0)\<rparr>
                 else
                   (case calculateEMA prices fastPeriod of
                      Inl e \<Rightarrow> Inl (rethrow ''calculateMACD'' e)
                    | Inr fastEMA \<Rightarrow>
                        (case calculateEMA prices slowPeriod of
                           Inl e \<Rightarrow> Inl (rethrow ''calculateMACD'' e)
                         | Inr slowEMA \<Rightarrow>
                             (let macdLine =
                                    map (\<lambda>i. if int i < slowPeriod - 1 then Num 0
                                              else jsSub (fastEMA ! i) (slowEMA ! i))
                                        [0..<length ps]
                              in case calculateEMA (Array macdLine) signalPeriod of
                                   Inl e \<Rightarrow> Inl (rethrow ''calculateMACD'' e)
                                 | Inr signalLine \<Rightarrow>
                                     Inr \<lparr>macd = macdLine,
                                          signal = signalLine,
                                          histogram =
                                            map (\<lambda>i. if int i < slowPeriod + signalPeriod - 2 then Num 0
                                                      else jsSub (macdLine ! i) (signalLine ! i))
                                                [0..<length macdLine]\<rparr>))))))"

subsection \<open>ATR\<close>

text \<open>
  An element of the \<open>klines\<close> array: an object with the properties \<open>high\<close>, \<open>low\<close> and
  \<open>close\<close>, or a value that fails \<open>!kline || typeof kline !== 'object'\<close>.
\<close>

datatype jskline = NotObject | KlineObject jsval jsval jsval

fun klineValid :: "jskline \<Rightarrow> error + unit" where
  "klineValid NotObject = Inl (Error ''calculateATR: Each kline must be an object'')"
| "klineValid (KlineObject h l c) =
     (if toNumber h = None \<or> toNumber l = None \<or> toNumber c = None
      then Inl (Error ''calculateATR: Kline has invalid high, low, or close value'')
      else Inr ())"

text \<open>
  The validation loop: the first invalid kline throws.  The message of the second error
  names the index of the kline in the source; the index is left out here.
\<close>

fun klinesValid :: "jskline list \<Rightarrow> error + unit" where
  "klinesValid [] = Inr ()"
| "klinesValid (k # ks) = (case klineValid k of Inl e \<Rightarrow> Inl e | Inr _ \<Rightarrow> klinesValid ks)"

fun klineHigh :: "jskline \<Rightarrow> real" where
  "klineHigh NotObject = 0"
| "klineHigh (KlineObject h l c) = numOf h"

fun klineLow :: "jskline \<Rightarrow> real" where
  "klineLow NotObject = 0"
| "klineLow (KlineObject h l c) = numOf l"

fun klineClose :: "jskline \<Rightarrow> real" where
  "klineClose NotObject = 0"
| "klineClose (KlineObject h l c) = numOf c"

definition trueRange :: "jskline \<Rightarrow> jskline \<Rightarrow> real" where
  "trueRange prev cur =
     (let high = klineHigh cur; low = klineLow cur; prevClose = klineClose prev;
          tr1 = high - low; tr2 = \<bar>high - prevClose\<bar>; tr3 = \<bar>low - prevClose\<bar>
      in max tr1 (max tr2 tr3))"

definition calculateATR :: "jskline jsarg \<Rightarrow> int \<Rightarrow> error + real" where
  "calculateATR klines period =
     (if period \<le> 0 then Inl (Error ''calculateATR: Period must be a positive integer'')
      else
        (case klines of
           NotArray \<Rightarrow> Inl (Error ''calculateATR: Klines must be an array'')
         | Array ks \<Rightarrow>
             if int (length ks) < period + 1 then Inr 0
             else
               (case klinesValid ks of
                  Inl e \<Rightarrow> Inl e
                | Inr _ \<Rightarrow>
                    (let trueRanges = map (\<lambda>i. trueRange (ks ! (i - 1)) (ks ! i)) [1..<length ks]
                     in if int (length trueRanges) < period
                        then Inr (sum_list trueRanges / real (length trueRanges))
                        else Inr (sum_list (drop (length trueRanges - nat period) trueRanges)
                                  / real_of_int period)))))"


section \<open>The prediction service (ml\_alternative.js)\<close>

text \<open>\<open>normalizeValue(value, min, max)\<close>; the log line of the invalid range is left out.\<close>

definition normalizeValue :: "jsval \<Rightarrow> real \<Rightarrow> real \<Rightarrow> real" where
  "normalizeValue v mn mx =
     (if v = Null \<or> v = Undefined \<or> toNumber v = None then 1 / 2
      else if mn \<ge> mx then 1 / 2
      else (let clampedValue = max mn (min mx (numOf v))
            in (clampedValue - mn) / (mx - mn)))"

subsection \<open>The model cache\<close>

text \<open>
  A JavaScript \<open>Map\<close> keeps its keys in insertion order, and the eviction depends on that
  order: the cache is a list of pairs, oldest first, with at most one pair for a key.
\<close>

type_synonym 'm modelCache = "(symbol \<times> 'm) list"

definition cacheHas :: "'m modelCache \<Rightarrow> symbol \<Rightarrow> bool" where
  "cacheHas c s = (s \<in> set (map fst c))"

definition cacheDelete :: "'m modelCache \<Rightarrow> symbol \<Rightarrow> 'm modelCache" where
  "cacheDelete c s = filter (\<lambda>e. fst e \<noteq> s) c"

definition cacheSet :: "'m modelCache \<Rightarrow> symbol \<Rightarrow> 'm \<Rightarrow> 'm modelCache" where
  "cacheSet c s m =
     (if cacheHas c s then map (\<lambda>e. if fst e = s then (s, m) else e) c else c @ [(s, m)])"

text \<open>
  What \<open>predictPriceChange(symbol, features)\<close> does to \<open>modelCache\<close>.  \<open>ready\<close> says that
  the symbol and the features are valid and that \<open>model.json\<close> and \<open>features.json\<close>
  exist; \<open>loaded\<close> is the network read from the files, \<open>None\<close> when reading or parsing
  threw.
\<close>

definition predictPriceChange_cache :: "bool \<Rightarrow> 'm option \<Rightarrow> symbol \<Rightarrow> 'm modelCache \<Rightarrow> 'm modelCache" where
  "predictPriceChange_cache ready loaded symbol c =
     (if \<not> ready then c
      else if cacheHas c symbol then c
      else
        (case loaded of
           None \<Rightarrow> c
         | Some net \<Rightarrow>
             (let c1 = (if length c > 50 then cacheDelete c (fst (hd c)) else c)
              in cacheSet c1 symbol net)))"

text \<open>The last step of \<open>trainModelForSymbol\<close>: the retrained symbol leaves the cache.\<close>

definition trainModelForSymbol_cache :: "symbol \<Rightarrow> 'm modelCache \<Rightarrow> 'm modelCache" where
  "trainModelForSymbol_cache symbol c = (if cacheHas c symbol then cacheDelete c symbol else c)"

text \<open>The two events that touch the cache, and a run of them from left to right.\<close>

datatype 'm cacheEvent = Predict symbol 'm | Train symbol

fun cacheStep :: "'m modelCache \<Rightarrow> 'm cacheEvent \<Rightarrow> 'm modelCache" where
  "cacheStep c (Predict s net) = predictPriceChange_cache True (Some net) s c"
| "cacheStep c (Train s) = trainModelForSymbol_cache s c"

definition cacheRun :: "'m cacheEvent list \<Rightarrow> 'm modelCache" where
  "cacheRun events = foldl cacheStep [] events"

subsection \<open>Ensemble prediction\<close>

text \<open>
  An entry of the model directory of a symbol as \<open>fs.readdirSync\<close> lists it, with what
  \<open>fs.statSync\<close> and \<open>fs.existsSync\<close> say about it.  A version directory is named
  \<open>v\<close> followed by the ISO timestamp of its creation (\<open>generateModelVersion\<close>);
  \<open>birthtime\<close> is that creation time.
\<close>

record dirEntry =
  name :: string
  isDirectory :: bool
  birthtime :: int
  hasModelJson :: bool
  hasFeaturesJson :: bool

record ensembleResult =
  prediction :: real
  confidence :: jsval
  individualPredictions :: "real list"
  stdDev :: real
  modelCount :: nat

text \<open>
  The loop \<open>for (i = 0; i < predictions.length; i++) { weight = predictions.length - i;
  weightedSum += predictions[i] * weight; weightSum += weight }\<close>.
\<close>

definition weightedSums :: "real list \<Rightarrow> real \<times> real" where
  "weightedSums predictions =
     foldl (\<lambda>(weightedSum, weightSum) i.
              (weightedSum + predictions ! i * real (length predictions - i),
               weightSum + real (length predictions - i)))
           (0, 0) [0..<length predictions]"

text \<open>
  \<open>ensemblePrediction(symbol, features)\<close>.  \<open>ready\<close> says that the symbol and the
  features are valid and that the model directory exists; \<open>listing\<close> is the answer of
  \<open>fs.readdirSync(modelDir)\<close>, in its order; \<open>run\<close> gives, for a version directory, the
  denormalised output of its network on the normalised features.  When the combined
  prediction is 0 the quotient \<open>stdDev / Math.abs(ensemblePrediction)\<close> is infinite or
  \<open>NaN\<close>, and so the confidence is 0 or \<open>NaN\<close>.
\<close>

definition ensemblePrediction :: "bool \<Rightarrow> dirEntry list \<Rightarrow> (string \<Rightarrow> real) \<Rightarrow> ensembleResult option" where
  "ensemblePrediction ready listing run =
     (if \<not> ready then None
      else
        (let versions =
               take 5 (filter (\<lambda>item. isDirectory item \<and> take 1 (name item) = ''v'' \<and> hasModelJson item)
                              listing)
         in if length versions = 0 then None
            else
              (let predictions =
                     map (\<lambda>version. run (name version))
                         (filter (\<lambda>version. hasModelJson version \<and> hasFeaturesJson version) versions)
               in if length predictions = 0 then None
                  else
                    (let ws = weightedSums predictions;
                         ensemble = fst ws / snd ws;
                         variance = sum_list (map (\<lambda>pred. (pred - ensemble) ^ 2) predictions)
                                    / real (length predictions);
                         sd = sqrt variance;
                         agreement =
                           (if ensemble = 0 then (if sd = 0 then NaN else Num 0)
                            else Num (max 0 (1 - sd / \<bar>ensemble\<bar>)));
                         confidenceScore =
                           (case agreement of Num a \<Rightarrow> Num (min 100 (max 0 (a * 100))) | _ \<Rightarrow> NaN)
                     in Some \<lparr>prediction = ensemble,
                              confidence = (case confidenceScore of Num s \<Rightarrow> Num (s / 100) | _ \<Rightarrow> NaN),
                              individualPredictions = predictions,
                              stdDev = sd,
                              modelCount = length predictions\<rparr>))))"

text \<open>
  The combination the specification describes, for comparison: the versions sorted by
  creation time, most recent first, at most five of them, the most recent with weight
  \<open>N\<close>, the next with \<open>N - 1\<close>, down to 1 for the oldest selected one.
\<close>

definition recencyWeightedAverage :: "(int \<times> real) list \<Rightarrow> real" where
  "recencyWeightedAverage versions =
     (let newestFirst = take 5 (rev (sort_key fst versions));
          n = length newestFirst
      in sum_list (map (\<lambda>i. snd (newestFirst ! i) * real (n - i)) [0..<n])
         / sum_list (map (\<lambda>i. real (n - i)) [0..<n]))"


text \<open>A complete version directory with its name and creation time.\<close>

definition versionDir :: "string \<Rightarrow> int \<Rightarrow> dirEntry" where
  "versionDir n t =
     \<lparr>name = n, isDirectory = True, birthtime = t, hasModelJson = True, hasFeaturesJson = True\<rparr>"

text \<open>
  Two and six versions of one symbol, one for each month from January 2024 on, in the
  order of their names, which is the order of their creation.
\<close>

definition twoVersions :: "dirEntry list" where
  "twoVersions =
     [versionDir ''v2024-01-01T00-00-00-000Z-001'' 1, versionDir ''v2024-02-01T00-00-00-000Z-002'' 2]"

definition sixVersions :: "dirEntry list" where
  "sixVersions =
     [versionDir ''v2024-01-01T00-00-00-000Z-001'' 1, versionDir ''v2024-02-01T00-00-00-000Z-002'' 2,
      versionDir ''v2024-03-01T00-00-00-000Z-003'' 3, versionDir ''v2024-04-01T00-00-00-000Z-004'' 4,
      versionDir ''v2024-05-01T00-00-00-000Z-005'' 5, versionDir ''v2024-06-01T00-00-00-000Z-006'' 6]"


section \<open>Properties of the alert policy\<close>

text \<open>
  C1 (as stated, refuted).  The claim says that a tie of price and indicator gives the
  side \<open>above\<close>.  At price 5 and EMA 5 the confirmed check records \<open>below\<close> in
  \<open>coinStates\<close>, and the provisional check of a tick at 5 after a close above the EMA
  logs a potential crossover to \<open>below\<close>.
\<close>

theorem C1_tie_counterexample:
  "crossState 5 5 \<noteq> Above \<and>
   coinStates (checkForCrossover 900000 1000 None ''BTCUSDT'' 4 5 6 5 emptyState) ''BTCUSDT''
     = Some Below \<and>
   fileLog (processRealtimeCandle ''BTCUSDT'' \<lparr>k_t = 2, k_c = 5, k_x = False\<rparr> True
      (emptyState\<lparr>klineCache := [''BTCUSDT'' \<mapsto> [mkKline 1 6]],
                   emaCache := [''BTCUSDT'' \<mapsto> [5, 5]]\<rparr>))
     = [PotentialCrossover ''BTCUSDT'' Below]"
  by (simp add: crossState_def checkForCrossover_def emptyState_def processRealtimeCandle_def
        mkKline_def)

text \<open>
  C1 (amended).  When the current price equals the current indicator value the computed
  side is \<open>below\<close>, in both checks: the confirmed check stores \<open>below\<close> as the state of
  the symbol, whatever the previous pair was, and the provisional check, once candles and
  at least two EMA values are cached, takes a tick at the last EMA value for \<open>below\<close>,
  so that it logs a potential downward crossover exactly when the last close was above.
\<close>

theorem C1_tie_is_below:
  assumes "klineCache st symbol = Some klines" and "klines \<noteq> []"
    and "emaCache st symbol = Some emaValues" and "2 \<le> length emaValues"
    and "k_c tick = last emaValues"
  shows "crossState (k_c tick) (last emaValues) = Below \<and>
         coinStates (checkForCrossover cooldown now pred symbol prevPrice p prevEMA p st) symbol
           = Some Below \<and>
         fileLog (processRealtimeCandle symbol tick lg st) =
           fileLog st @ (if k_close (last klines) > last emaValues
                         then [PotentialCrossover symbol Below] else [])"
  using assms
  by (simp add: crossState_def checkForCrossover_def processRealtimeCandle_def Let_def)

theorem C1_tie_is_below_witness:
  "coinStates (checkForCrossover 900000 1000 None ''BTCUSDT'' 4 5 6 5
      (emptyState\<lparr>klineCache := [''BTCUSDT'' \<mapsto> [mkKline 1 6]],
                   emaCache := [''BTCUSDT'' \<mapsto> [5, 5]]\<rparr>)) ''BTCUSDT'' = Some Below \<and>
   fileLog (processRealtimeCandle ''BTCUSDT'' \<lparr>k_t = 2, k_c = 5, k_x = False\<rparr> False
      (emptyState\<lparr>klineCache := [''BTCUSDT'' \<mapsto> [mkKline 1 6]],
                   emaCache := [''BTCUSDT'' \<mapsto> [5, 5]]\<rparr>))
     = [PotentialCrossover ''BTCUSDT'' Below]"
  using C1_tie_is_below [of "emptyState\<lparr>klineCache := [''BTCUSDT'' \<mapsto> [mkKline 1 6]],
                   emaCache := [''BTCUSDT'' \<mapsto> [5, 5]]\<rparr>" "''BTCUSDT''" "[mkKline 1 6]" "[5, 5]"
                   "\<lparr>k_t = 2, k_c = 5, k_x = False\<rparr>" 900000 1000 None 4 5 6 False]
  by (simp add: emptyState_def mkKline_def)

text \<open>
  C2 (as stated, refuted).  The state of BTCUSDT is \<open>below\<close> and its last alert was at
  time 5000.  The price goes from 10, level with the indicator, to 10.5 above it: the side
  changes to \<open>above\<close>.  Evaluated at 5000 plus the cooldown, \<open>checkForCrossover\<close> sends
  no alert and leaves the alert time alone; it only stores the new side.
\<close>

theorem C2_transition_without_crossover_counterexample:
  "coinStates cooldownState ''BTCUSDT'' = Some Below \<and>
   lastAlerts cooldownState ''BTCUSDT'' = Some 5000 \<and>
   crossState (21 / 2) 10 = Above \<and>
   alertsSent (checkForCrossover 900000 (5000 + 900000) None ''BTCUSDT'' 10 (21 / 2) 10 10
                 cooldownState) = [] \<and>
   lastAlerts (checkForCrossover 900000 (5000 + 900000) None ''BTCUSDT'' 10 (21 / 2) 10 10
                 cooldownState) ''BTCUSDT'' = Some 5000 \<and>
   coinStates (checkForCrossover 900000 (5000 + 900000) None ''BTCUSDT'' 10 (21 / 2) 10 10
                 cooldownState) ''BTCUSDT'' = Some Above"
  by (simp add: cooldownState_def emptyState_def checkForCrossover_def crossState_def)

text \<open>
  C2 (amended).  With the state of the symbol \<open>below\<close>, the last alert at time \<open>T\<close> and
  the current price above the indicator: \<open>shouldAlert\<close> for \<open>above\<close> answers no at
  \<open>T + cooldown - 1\<close>, leaving the alert times alone, and yes at \<open>T + cooldown\<close>, setting
  the alert time of the symbol to \<open>T + cooldown\<close>.  \<open>checkForCrossover\<close> asks it only when
  the previous price was strictly below the previous indicator value: then it sends no
  alert at \<open>T + cooldown - 1\<close> and exactly one at \<open>T + cooldown\<close>, and sets the alert time
  to \<open>T + cooldown\<close>.  When the previous price was level with the indicator or above it,
  no alert is sent at any time, the alert times stay as they were and the stored side
  becomes \<open>above\<close>.
\<close>

theorem C2_cooldown_boundary:
  assumes "coinStates st symbol = Some Below" and "lastAlerts st symbol = Some T"
    and "lastPrice > lastEMA"
  shows "\<not> fst (shouldAlert cooldown (T + cooldown - 1) symbol Above st) \<and>
         lastAlerts (snd (shouldAlert cooldown (T + cooldown - 1) symbol Above st)) = lastAlerts st \<and>
         fst (shouldAlert cooldown (T + cooldown) symbol Above st) \<and>
         lastAlerts (snd (shouldAlert cooldown (T + cooldown) symbol Above st)) symbol
           = Some (T + cooldown) \<and>
         (prevPrice < prevEMA \<longrightarrow>
            alertsSent (checkForCrossover cooldown (T + cooldown - 1) pred symbol
                          prevPrice lastPrice prevEMA lastEMA st) = alertsSent st \<and>
            lastAlerts (checkForCrossover cooldown (T + cooldown - 1) pred symbol
                          prevPrice lastPrice prevEMA lastEMA st) = lastAlerts st \<and>
            alertsSent (checkForCrossover cooldown (T + cooldown) pred symbol
                          prevPrice lastPrice prevEMA lastEMA st)
              = alertsSent st @
                [\<lparr>a_symbol = symbol, a_crossType = Up, a_price = lastPrice, a_ema = lastEMA,
                  a_difference = (lastPrice - lastEMA) / lastEMA * 100, a_prediction = pred\<rparr>] \<and>
            lastAlerts (checkForCrossover cooldown (T + cooldown) pred symbol
                          prevPrice lastPrice prevEMA lastEMA st) symbol = Some (T + cooldown)) \<and>
         (prevPrice \<ge> prevEMA \<longrightarrow>
            alertsSent (checkForCrossover cooldown now pred symbol
                          prevPrice lastPrice prevEMA lastEMA st) = alertsSent st \<and>
            lastAlerts (checkForCrossover cooldown now pred symbol
                          prevPrice lastPrice prevEMA lastEMA st) = lastAlerts st \<and>
            coinStates (checkForCrossover cooldown now pred symbol
                          prevPrice lastPrice prevEMA lastEMA st) symbol = Some Above)"
  using assms
  by (simp add: shouldAlert_def checkForCrossover_def crossState_def sendTelegramAlert_def Let_def)

theorem C2_cooldown_boundary_witness:
  "alertsSent (checkForCrossover 900000 (5000 + 900000 - 1) None ''BTCUSDT'' 9 11 10 10 cooldownState)
     = [] \<and>
   alertsSent (checkForCrossover 900000 (5000 + 900000) None ''BTCUSDT'' 9 11 10 10 cooldownState)
     = [\<lparr>a_symbol = ''BTCUSDT'', a_crossType = Up, a_price = 11, a_ema = 10,
         a_difference = 10, a_prediction = None\<rparr>] \<and>
   lastAlerts (checkForCrossover 900000 (5000 + 900000) None ''BTCUSDT'' 9 11 10 10 cooldownState)
     ''BTCUSDT'' = Some 905000 \<and>
   alertsSent (checkForCrossover 900000 (5000 + 900000) None ''BTCUSDT'' 10 11 10 10 cooldownState)
     = [] \<and>
   coinStates (checkForCrossover 900000 (5000 + 900000) None ''BTCUSDT'' 10 11 10 10 cooldownState)
     ''BTCUSDT'' = Some Above"
proof -
  have h1: "coinStates cooldownState ''BTCUSDT'' = Some Below" by (simp add: cooldownState_def)
  have h2: "lastAlerts cooldownState ''BTCUSDT'' = Some 5000" by (simp add: cooldownState_def)
  have h3: "(11::real) > 10" by simp
  have lt: "(9::real) < 10" and ge: "(10::real) \<ge> 10" by simp_all
  note cross = C2_cooldown_boundary [OF h1 h2 h3, of 900000 9 10 None]
  note tie = C2_cooldown_boundary [OF h1 h2 h3, of 900000 10 10 None "5000 + 900000"]
  from cross lt have
    "alertsSent (checkForCrossover 900000 (5000 + 900000 - 1) None ''BTCUSDT'' 9 11 10 10 cooldownState)
       = alertsSent cooldownState"
    and "alertsSent (checkForCrossover 900000 (5000 + 900000) None ''BTCUSDT'' 9 11 10 10 cooldownState)
       = alertsSent cooldownState @
         [\<lparr>a_symbol = ''BTCUSDT'', a_crossType = Up, a_price = 11, a_ema = 10,
           a_difference = (11 - 10) / 10 * 100, a_prediction = None\<rparr>]"
    and "lastAlerts (checkForCrossover 900000 (5000 + 900000) None ''BTCUSDT'' 9 11 10 10 cooldownState)
           ''BTCUSDT'' = Some (5000 + 900000)"
    by blast+
  moreover from tie ge have
    "alertsSent (checkForCrossover 900000 (5000 + 900000) None ''BTCUSDT'' 10 11 10 10 cooldownState)
       = alertsSent cooldownState"
    and "coinStates (checkForCrossover 900000 (5000 + 900000) None ''BTCUSDT'' 10 11 10 10 cooldownState)
           ''BTCUSDT'' = Some Above"
    by blast+
  ultimately show ?thesis by (simp add: cooldownState_def emptyState_def)
qed




section \<open>Properties of the label backfill\<close>

lemma findIndex_lt: "findIndex P xs = Some i \<Longrightarrow> i < length xs"
  by (induction xs arbitrary: i) (auto split: if_splits)

lemma findIndex_update:
  "findIndex P xs = Some i \<Longrightarrow> (\<And>x. P (f x) = P x) \<Longrightarrow> findIndex P (xs[i := f (xs ! i)]) = Some i"
proof (induction xs arbitrary: i)
  case Nil
  then show ?case by simp
next
  case (Cons x xs)
  show ?case
  proof (cases "P x")
    case True
    with Cons.prems show ?thesis by simp
  next
    case False
    with Cons.prems obtain j where j: "findIndex P xs = Some j" "i = Suc j" by auto
    with Cons.IH [OF j(1) Cons.prems(2)] False show ?thesis by simp
  qed
qed

lemma setLabel_twice: "setLabel b (setLabel a d) = setLabel b d"
  by (simp add: setLabel_def)

lemma setLabel_timestamp: "dp_timestamp (setLabel a d) = dp_timestamp d"
  by (simp add: setLabel_def)

lemma setLabel_close: "dp_close (setLabel a d) = dp_close d"
  by (simp add: setLabel_def)

lemma setStoredLabel_twice: "setStoredLabel b (setStoredLabel a d) = setStoredLabel b d"
  by (simp add: setStoredLabel_def)

lemma setStoredLabel_timestamp: "dp_timestamp (setStoredLabel a d) = dp_timestamp d"
  by (simp add: setStoredLabel_def)

text \<open>Where the loop over the files stops, and what it writes there.\<close>

lemma updateFiles_at:
  assumes "\<forall>file \<in> set pre. findIndex P (snd file) = None" and "findIndex P fdata = Some j"
  shows "updateFiles P f (pre @ (fname, fdata) # post)
           = Some (pre @ (fname, fdata[j := f (fdata ! j)]) # post)"
  using assms(1)
proof (induction pre)
  case Nil
  then show ?case using assms(2) by simp
next
  case (Cons a pre)
  obtain n d where a: "a = (n, d)" by (cases a)
  with Cons.prems have "findIndex P d = None" by simp
  moreover from Cons have "updateFiles P f (pre @ (fname, fdata) # post)
           = Some (pre @ (fname, fdata[j := f (fdata ! j)]) # post)" by simp
  ultimately show ?case using a by simp
qed

lemma updateFiles_at_twice:
  assumes "\<forall>file \<in> set pre. findIndex P (snd file) = None" and "findIndex P fdata = Some j"
    and "\<And>x. P (f x) = P x" and "\<And>x. g (f x) = g x"
  shows "updateFiles P g (pre @ (fname, fdata[j := f (fdata ! j)]) # post)
           = Some (pre @ (fname, fdata[j := g (fdata ! j)]) # post)"
proof -
  have j: "j < length fdata" using assms(2) by (rule findIndex_lt)
  have "findIndex P (fdata[j := f (fdata ! j)]) = Some j"
    using assms(2,3) by (rule findIndex_update)
  from updateFiles_at [OF assms(1) this, of g fname post] j assms(4) show ?thesis by simp
qed

lemma backfill_found:
  "trainingData st s = Some data \<Longrightarrow> findIndex (\<lambda>d. dp_timestamp d = ts) data = Some i \<Longrightarrow>
   updateFuturePriceChange (Some p) s ts st
     = backfilled (priceChangePercent p (dp_close (data ! i))) s ts st data i"
  by (simp add: updateFuturePriceChange_def updateStoredDataPoint_def backfilled_def Let_def
           split: option.splits)

lemma backfill_absent:
  "trainingData st s = None \<or>
   (\<exists>data. trainingData st s = Some data \<and> findIndex (\<lambda>d. dp_timestamp d = ts) data = None) \<Longrightarrow>
   updateFuturePriceChange cp s ts st = st"
  by (auto simp: updateFuturePriceChange_def)

lemma backfill_twice:
  assumes mem: "trainingData st s = Some data" "findIndex (\<lambda>d. dp_timestamp d = ts) data = Some i"
    and disk: "mlDataFiles st s = Some (pre @ (fname, fdata) # post)"
      "\<forall>file \<in> set pre. findIndex (\<lambda>d. dp_timestamp d = ts) (snd file) = None"
      "findIndex (\<lambda>d. dp_timestamp d = ts) fdata = Some j"
  shows "trainingData (updateFuturePriceChange (Some p2) s ts (updateFuturePriceChange (Some p1) s ts st)) s
           = Some (data[i := setLabel (priceChangePercent p2 (dp_close (data ! i))) (data ! i)])"
    and "mlDataFiles (updateFuturePriceChange (Some p2) s ts (updateFuturePriceChange (Some p1) s ts st)) s
           = Some (pre @ (fname, fdata[j := setStoredLabel (priceChangePercent p2 (dp_close (data ! i)))
                                              (fdata ! j)]) # post)"
proof -
  let ?P = "\<lambda>d. dp_timestamp d = ts"
  let ?pc1 = "priceChangePercent p1 (dp_close (data ! i))"
  let ?pc2 = "priceChangePercent p2 (dp_close (data ! i))"
  let ?data1 = "data[i := setLabel ?pc1 (data ! i)]"
  let ?fdata1 = "fdata[j := setStoredLabel ?pc1 (fdata ! j)]"
  let ?st1 = "backfilled ?pc1 s ts st data i"
  have i: "i < length data" using mem(2) by (rule findIndex_lt)
  have e1: "updateFuturePriceChange (Some p1) s ts st = ?st1" using mem by (rule backfill_found)
  have u1: "updateFiles ?P (setStoredLabel ?pc1) (pre @ (fname, fdata) # post)
              = Some (pre @ (fname, ?fdata1) # post)"
    using disk(2,3) by (rule updateFiles_at)
  have d1: "trainingData ?st1 s = Some ?data1" by (simp add: backfilled_def)
  have f1: "mlDataFiles ?st1 s = Some (pre @ (fname, ?fdata1) # post)"
    using disk(1) u1 by (simp add: backfilled_def)
  have x1: "findIndex ?P ?data1 = Some i"
    using mem(2) by (rule findIndex_update) (simp add: setLabel_timestamp)
  have c: "dp_close (?data1 ! i) = dp_close (data ! i)" using i by (simp add: setLabel_close)
  have e2: "updateFuturePriceChange (Some p2) s ts ?st1 = backfilled ?pc2 s ts ?st1 ?data1 i"
    using backfill_found [OF d1 x1, of p2] c by simp
  have u2: "updateFiles ?P (setStoredLabel ?pc2) (pre @ (fname, ?fdata1) # post)
              = Some (pre @ (fname, fdata[j := setStoredLabel ?pc2 (fdata ! j)]) # post)"
    using disk(2,3)
    by (rule updateFiles_at_twice) (simp_all add: setStoredLabel_timestamp setStoredLabel_twice)
  show "trainingData (updateFuturePriceChange (Some p2) s ts (updateFuturePriceChange (Some p1) s ts st)) s
           = Some (data[i := setLabel ?pc2 (data ! i)])"
    unfolding e1 e2 using i by (simp add: backfilled_def setLabel_twice)
  show "mlDataFiles (updateFuturePriceChange (Some p2) s ts (updateFuturePriceChange (Some p1) s ts st)) s
           = Some (pre @ (fname, fdata[j := setStoredLabel ?pc2 (fdata ! j)]) # post)"
    unfolding e1 e2 using f1 u2 by (simp add: backfilled_def [of ?pc2])
qed

lemma updateStoredDataPoint_twice:
  assumes "mlDataFiles st s = Some (pre @ (fname, fdata) # post)"
    and "\<forall>file \<in> set pre. findIndex (\<lambda>d. dp_timestamp d = ts) (snd file) = None"
    and "findIndex (\<lambda>d. dp_timestamp d = ts) fdata = Some j"
  shows "updateStoredDataPoint s ts b (snd (updateStoredDataPoint s ts a st))
           = (True, st\<lparr>mlDataFiles :=
                          (mlDataFiles st)(s \<mapsto> pre @ (fname, fdata[j := setStoredLabel b (fdata ! j)]) # post)\<rparr>)"
proof -
  let ?P = "\<lambda>d. dp_timestamp d = ts"
  have u1: "updateFiles ?P (setStoredLabel a) (pre @ (fname, fdata) # post)
              = Some (pre @ (fname, fdata[j := setStoredLabel a (fdata ! j)]) # post)"
    using assms(2,3) by (rule updateFiles_at)
  have u2: "updateFiles ?P (setStoredLabel b) (pre @ (fname, fdata[j := setStoredLabel a (fdata ! j)]) # post)
              = Some (pre @ (fname, fdata[j := setStoredLabel b (fdata ! j)]) # post)"
    using assms(2,3)
    by (rule updateFiles_at_twice) (simp_all add: setStoredLabel_timestamp setStoredLabel_twice)
  show ?thesis using assms(1) u1 u2 by (simp add: updateStoredDataPoint_def)
qed

lemma collector_twice:
  assumes "\<forall>file \<in> set pre. findIndex (\<lambda>d. cp_timestamp d = ts) (snd file) = None"
    and "findIndex (\<lambda>d. cp_timestamp d = ts) cdata = Some k"
  shows "updateFuturePriceChange_collector ts b
           (snd (updateFuturePriceChange_collector ts a (Some (pre @ (cname, cdata) # post))))
         = (True, Some (pre @ (cname, cdata[k := (cdata ! k)\<lparr>futurePriceChange := jsonNumber b\<rparr>]) # post))"
proof -
  let ?P = "\<lambda>d. cp_timestamp d = ts"
  let ?f = "\<lambda>v d. d\<lparr>futurePriceChange := jsonNumber v\<rparr>"
  have u1: "updateFiles ?P (?f a) (pre @ (cname, cdata) # post)
              = Some (pre @ (cname, cdata[k := ?f a (cdata ! k)]) # post)"
    using assms by (rule updateFiles_at)
  have u2: "updateFiles ?P (?f b) (pre @ (cname, cdata[k := ?f a (cdata ! k)]) # post)
              = Some (pre @ (cname, cdata[k := ?f b (cdata ! k)]) # post)"
    using assms by (rule updateFiles_at_twice) simp_all
  show ?thesis using u1 u2 by (simp add: updateFuturePriceChange_collector_def)
qed

text \<open>
  A point that closed at 0: the change is an infinity or \<open>NaN\<close> in memory and \<open>null\<close> in
  the file.
\<close>

lemma backfill_at_zero_close:
  "trainingData (updateFuturePriceChange (Some 5) ''NEWUSDT'' 1000 backfillState) ''NEWUSDT''
     = Some [(mkPoint ''NEWUSDT'' 1000 0)\<lparr>future_price_change := Some PosInfinity, label := Some 1\<rparr>] \<and>
   mlDataFiles (updateFuturePriceChange (Some 5) ''NEWUSDT'' 1000 backfillState) ''NEWUSDT''
     = Some [(''2024-01.json'',
              [(mkPoint ''NEWUSDT'' 1000 0)\<lparr>future_price_change := None, label := Some 1\<rparr>])] \<and>
   trainingData (updateFuturePriceChange (Some 0) ''NEWUSDT'' 1000 backfillState) ''NEWUSDT''
     = Some [(mkPoint ''NEWUSDT'' 1000 0)\<lparr>future_price_change := Some NotANumber, label := Some 0\<rparr>]"
  by (simp add: backfillState_def emptyState_def mkPoint_def updateFuturePriceChange_def
        updateStoredDataPoint_def setLabel_def setStoredLabel_def priceChangePercent_def Let_def)

text \<open>
  C3 (as stated, refuted).  A point of BTCUSDT closed at 100.  The first backfill, at
  price 110, writes the change 10, in memory and in the JSON file; a second backfill for
  the same symbol and timestamp, at price 120, replaces it by 20 in both.  A second call
  of \<open>updateStoredDataPoint\<close>, and of the collector's \<open>updateFuturePriceChange\<close>,
  replaces a stored 10 by 20 in the same way.
\<close>

theorem C3_second_backfill_counterexample:
  "map_option (map future_price_change)
     (trainingData (updateFuturePriceChange (Some 110) ''BTCUSDT'' 1000 backfillState) ''BTCUSDT'')
     = Some [Some (Finite 10)] \<and>
   map_option (map future_price_change)
     (trainingData (updateFuturePriceChange (Some 120) ''BTCUSDT'' 1000
        (updateFuturePriceChange (Some 110) ''BTCUSDT'' 1000 backfillState)) ''BTCUSDT'')
     = Some [Some (Finite 20)] \<and>
   map_option (map (\<lambda>f. map future_price_change (snd f)))
     (mlDataFiles (updateFuturePriceChange (Some 110) ''BTCUSDT'' 1000 backfillState) ''BTCUSDT'')
     = Some [[Some (Finite 10)]] \<and>
   map_option (map (\<lambda>f. map future_price_change (snd f)))
     (mlDataFiles (updateFuturePriceChange (Some 120) ''BTCUSDT'' 1000
        (updateFuturePriceChange (Some 110) ''BTCUSDT'' 1000 backfillState)) ''BTCUSDT'')
     = Some [[Some (Finite 20)]] \<and>
   map_option (map (\<lambda>f. map future_price_change (snd f)))
     (mlDataFiles (snd (updateStoredDataPoint ''BTCUSDT'' 1000 (Finite 20)
        (snd (updateStoredDataPoint ''BTCUSDT'' 1000 (Finite 10) backfillState)))) ''BTCUSDT'')
     = Some [[Some (Finite 20)]] \<and>
   updateFuturePriceChange_collector 1000 (Finite 20)
     (snd (updateFuturePriceChange_collector 1000 (Finite 10)
        (Some [(''2024-01.json'', [\<lparr>cp_timestamp = 1000, futurePriceChange = None\<rparr>])])))
     = (True, Some [(''2024-01.json'', [\<lparr>cp_timestamp = 1000, futurePriceChange = Some (Finite 20)\<rparr>])])"
  by (simp add: backfillState_def emptyState_def mkPoint_def updateFuturePriceChange_def
        updateStoredDataPoint_def updateFuturePriceChange_collector_def setLabel_def
        setStoredLabel_def priceChangePercent_def Let_def)

text \<open>
  C3 (amended).  Every backfill writes the label of its point unconditionally; the last
  write wins.  When the point with the timestamp is in the training data of the symbol and
  in one of its files, then after a second backfill for the same symbol and timestamp the
  point in memory carries the change computed from the second price, and the first point
  with the timestamp in the first file that has one carries it on disk (\<open>null\<close> there
  when the change is not finite), each with the label of that change; nothing else in the
  list or the files differs from before.  Likewise a second call of
  \<open>updateStoredDataPoint\<close> and a second call of the collector's
  \<open>updateFuturePriceChange\<close> succeed and leave the value of the second call in the file.
\<close>

theorem C3_second_backfill_overwrites:
  assumes "trainingData st s = Some data"
    and "findIndex (\<lambda>d. dp_timestamp d = ts) data = Some i"
    and "mlDataFiles st s = Some (pre @ (fname, fdata) # post)"
    and "\<forall>file \<in> set pre. findIndex (\<lambda>d. dp_timestamp d = ts) (snd file) = None"
    and "findIndex (\<lambda>d. dp_timestamp d = ts) fdata = Some j"
    and "\<forall>file \<in> set cpre. findIndex (\<lambda>d. cp_timestamp d = ts) (snd file) = None"
    and "findIndex (\<lambda>d. cp_timestamp d = ts) cdata = Some k"
  shows "trainingData (updateFuturePriceChange (Some p2) s ts (updateFuturePriceChange (Some p1) s ts st)) s
           = Some (data[i := (data ! i)
                      \<lparr>future_price_change := Some (priceChangePercent p2 (dp_close (data ! i))),
                       label := Some (if geZero (priceChangePercent p2 (dp_close (data ! i))) then 1 else 0)\<rparr>]) \<and>
         mlDataFiles (updateFuturePriceChange (Some p2) s ts (updateFuturePriceChange (Some p1) s ts st)) s
           = Some (pre @ (fname, fdata[j := (fdata ! j)
                      \<lparr>future_price_change := jsonNumber (priceChangePercent p2 (dp_close (data ! i))),
                       label := Some (if geZero (priceChangePercent p2 (dp_close (data ! i))) then 1 else 0)\<rparr>])
                     # post) \<and>
         updateStoredDataPoint s ts b (snd (updateStoredDataPoint s ts a st))
           = (True, st\<lparr>mlDataFiles :=
                (mlDataFiles st)(s \<mapsto> pre @ (fname, fdata[j := (fdata ! j)
                      \<lparr>future_price_change := jsonNumber b,
                       label := Some (if geZero b then 1 else 0)\<rparr>]) # post)\<rparr>) \<and>
         updateFuturePriceChange_collector ts b
             (snd (updateFuturePriceChange_collector ts a (Some (cpre @ (cname, cdata) # cpost))))
           = (True, Some (cpre @ (cname, cdata[k := (cdata ! k)\<lparr>futurePriceChange := jsonNumber b\<rparr>])
                            # cpost))"
  using backfill_twice [OF assms(1-5), of p2 p1] updateStoredDataPoint_twice [OF assms(3-5), of b a]
    collector_twice [OF assms(6,7), of b a cname cpost]
  by (simp add: setLabel_def setStoredLabel_def)

theorem C3_second_backfill_overwrites_witness:
  "trainingData (updateFuturePriceChange (Some 120) ''BTCUSDT'' 1000
        (updateFuturePriceChange (Some 110) ''BTCUSDT'' 1000 backfillState)) ''BTCUSDT''
     = Some [(mkPoint ''BTCUSDT'' 1000 100)\<lparr>future_price_change := Some (Finite 20), label := Some 1\<rparr>] \<and>
   mlDataFiles (updateFuturePriceChange (Some 120) ''BTCUSDT'' 1000
        (updateFuturePriceChange (Some 110) ''BTCUSDT'' 1000 backfillState)) ''BTCUSDT''
     = Some [(''2024-01.json'',
              [(mkPoint ''BTCUSDT'' 1000 100)\<lparr>future_price_change := Some (Finite 20), label := Some 1\<rparr>])] \<and>
   updateFuturePriceChange_collector 1000 (Finite 20)
     (snd (updateFuturePriceChange_collector 1000 (Finite 10)
        (Some [(''2023-12.json'', [\<lparr>cp_timestamp = 500, futurePriceChange = None\<rparr>]),
               (''2024-01.json'', [\<lparr>cp_timestamp = 1000, futurePriceChange = None\<rparr>])])))
     = (True, Some [(''2023-12.json'', [\<lparr>cp_timestamp = 500, futurePriceChange = None\<rparr>]),
                    (''2024-01.json'', [\<lparr>cp_timestamp = 1000, futurePriceChange = Some (Finite 20)\<rparr>])])"
proof -
  let ?p = "mkPoint ''BTCUSDT'' 1000 100"
  let ?c0 = "\<lparr>cp_timestamp = 500, futurePriceChange = None\<rparr>"
  let ?c1 = "\<lparr>cp_timestamp = 1000, futurePriceChange = None\<rparr>"
  have h1: "trainingData backfillState ''BTCUSDT'' = Some [?p]" by (simp add: backfillState_def)
  have h2: "findIndex (\<lambda>d. dp_timestamp d = 1000) [?p] = Some 0" by (simp add: mkPoint_def)
  have h3: "mlDataFiles backfillState ''BTCUSDT'' = Some ([] @ (''2024-01.json'', [?p]) # [])"
    by (simp add: backfillState_def)
  have h4: "\<forall>file \<in> set []. findIndex (\<lambda>d. dp_timestamp d = 1000) (snd file) = None" by simp
  have h6: "\<forall>file \<in> set [(''2023-12.json'', [?c0])].
              findIndex (\<lambda>d. cp_timestamp d = 1000) (snd file) = None" by simp
  have h7: "findIndex (\<lambda>d. cp_timestamp d = 1000) [?c1] = Some 0" by simp
  note t = C3_second_backfill_overwrites [OF h1 h2 h3 h4 h2 h6 h7,
      of 120 110 "Finite 20" "Finite 10" "''2024-01.json''" "[]"]
  from t have
    "trainingData (updateFuturePriceChange (Some 120) ''BTCUSDT'' 1000
        (updateFuturePriceChange (Some 110) ''BTCUSDT'' 1000 backfillState)) ''BTCUSDT''
       = Some ([?p][0 := ([?p] ! 0)
                      \<lparr>future_price_change := Some (priceChangePercent 120 (dp_close ([?p] ! 0))),
                       label := Some (if geZero (priceChangePercent 120 (dp_close ([?p] ! 0))) then 1 else 0)\<rparr>])"
    and "mlDataFiles (updateFuturePriceChange (Some 120) ''BTCUSDT'' 1000
        (updateFuturePriceChange (Some 110) ''BTCUSDT'' 1000 backfillState)) ''BTCUSDT''
       = Some ([] @ (''2024-01.json'', [?p][0 := ([?p] ! 0)
                      \<lparr>future_price_change := jsonNumber (priceChangePercent 120 (dp_close ([?p] ! 0))),
                       label := Some (if geZero (priceChangePercent 120 (dp_close ([?p] ! 0))) then 1 else 0)\<rparr>])
                     # [])"
    and "updateFuturePriceChange_collector 1000 (Finite 20)
             (snd (updateFuturePriceChange_collector 1000 (Finite 10)
                (Some ([(''2023-12.json'', [?c0])] @ (''2024-01.json'', [?c1]) # []))))
           = (True, Some ([(''2023-12.json'', [?c0])] @
                (''2024-01.json'', [?c1][0 := ([?c1] ! 0)\<lparr>futurePriceChange := jsonNumber (Finite 20)\<rparr>])
                            # []))"
    by blast+
  then show ?thesis by (simp add: mkPoint_def priceChangePercent_def)
qed


section \<open>Properties of the indicator engine\<close>

lemma padArray_length: "length (padArray xs n v b) = max (length xs) n"
  by (simp add: padArray_def Let_def)

lemma emaLoop_length: "length (emaLoop k e ps) = length ps"
  by (induction ps arbitrary: e) simp_all

lemma validatePriceData_True:
  "validatePriceData (Array ps) m fn = Inr True \<Longrightarrow> m \<le> int (length ps)"
  by (simp add: validatePriceData_def split: if_splits)

lemma calculateEMA_length:
  assumes "calculateEMA (Array ps) period = Inr r"
  shows "length r = length ps"
proof -
  from assms have pos: "0 < period" by (simp add: calculateEMA_def split: if_splits)
  from assms pos obtain ok where ok: "validatePriceData (Array ps) period ''calculateEMA'' = Inr ok"
    by (auto simp: calculateEMA_def split: sum.splits)
  show ?thesis
  proof (cases ok)
    case True
    with ok have "period \<le> int (length ps)" by (simp add: validatePriceData_True)
    with pos have "nat period \<le> length ps" "0 < nat period" by simp_all
    then show ?thesis using assms pos ok True
      by (auto simp: calculateEMA_def elements_def Let_def padArray_length emaLoop_length)
  next
    case False
    then show ?thesis using assms pos ok
      by (auto simp: calculateEMA_def elements_def Let_def padArray_length)
  qed
qed

text \<open>
  C5 (as stated, refuted).  For the prices 1, 3 with the periods 1, 2 and 2 the MACD line
  is 0, 1 and the signal line 0, 1/2, but the histogram is 0, 0: at index 1 it is not the
  difference 1/2.
\<close>

theorem C5_histogram_counterexample:
  "calculateMACD (Array [Num 1, Num 3]) 1 2 2
     = Inr \<lparr>macd = [Num 0, Num 1], signal = [Num 0, Num (1 / 2)], histogram = [Num 0, Num 0]\<rparr> \<and>
   [Num 0, Num 0] ! 1 \<noteq> jsSub ([Num 0, Num 1] ! 1) ([Num 0, Num (1 / 2)] ! 1)"
  by (simp add: calculateMACD_def calculateEMA_def validatePriceData_def elements_def padArray_def
        numOf_def jsSub_def Let_def upt_rec)

text \<open>
  C5 (amended).  The three returned arrays are as long as the price series.  At every
  index from \<open>slowPeriod + signalPeriod - 2\<close> on, and at every index when the series is
  shorter than the longer of the fast and slow periods (all three arrays are zero then),
  the histogram value is the MACD value minus the signal value; at every earlier index of
  a series that is long enough the histogram value is 0.
\<close>

theorem C5_histogram_is_difference_after_warmup:
  assumes "calculateMACD (Array ps) fastPeriod slowPeriod signalPeriod = Inr r"
    and "i < length ps"
  shows "length (macd r) = length ps \<and> length (signal r) = length ps \<and>
         length (histogram r) = length ps \<and>
         histogram r ! i =
           (if max fastPeriod slowPeriod \<le> int (length ps) \<and> int i < slowPeriod + signalPeriod - 2
            then Num 0
            else jsSub (macd r ! i) (signal r ! i))"
proof -
  from assms(1) have pos: "0 < fastPeriod" "0 < slowPeriod" "0 < signalPeriod"
    by (simp_all add: calculateMACD_def split: if_splits)
  from assms(1) pos obtain ok where
    ok: "validatePriceData (Array ps) (max fastPeriod slowPeriod) ''calculateMACD'' = Inr ok"
    by (auto simp: calculateMACD_def split: sum.splits)
  show ?thesis
  proof (cases ok)
    case False
    with ok have short: "int (length ps) < max fastPeriod slowPeriod"
      by (auto simp: validatePriceData_def split: if_splits)
    from assms(1) pos ok False
    have r: "r = \<lparr>macd = replicate (length ps) (Num 0), signal = replicate (length ps) (Num 0),
                   histogram = replicate (length ps) (Num 0)\<rparr>"
      by (simp add: calculateMACD_def elements_def Let_def)
    show ?thesis using short assms(2) by (simp add: r jsSub_def)
  next
    case True
    with ok have long: "max fastPeriod slowPeriod \<le> int (length ps)"
      by (rule_tac validatePriceData_True) simp
    from assms(1) pos ok True obtain fastEMA slowEMA signalLine where
      sl: "calculateEMA (Array (map (\<lambda>i. if int i < slowPeriod - 1 then Num 0
                                          else jsSub (fastEMA ! i) (slowEMA ! i)) [0..<length ps]))
             signalPeriod = Inr signalLine"
      and r: "r = \<lparr>macd = map (\<lambda>i. if int i < slowPeriod - 1 then Num 0
                                     else jsSub (fastEMA ! i) (slowEMA ! i)) [0..<length ps],
                    signal = signalLine,
                    histogram =
                      map (\<lambda>i. if int i < slowPeriod + signalPeriod - 2 then Num 0
                                else jsSub (map (\<lambda>i. if int i < slowPeriod - 1 then Num 0
                                                     else jsSub (fastEMA ! i) (slowEMA ! i))
                                                [0..<length ps] ! i) (signalLine ! i))
                          [0..<length ps]\<rparr>"
      by (auto simp: calculateMACD_def elements_def Let_def split: sum.splits)
    from calculateEMA_length [OF sl] have "length signalLine = length ps" by simp
    then show ?thesis using long assms(2) by (simp add: r)
  qed
qed

theorem C5_histogram_is_difference_after_warmup_witness:
  "histogram \<lparr>macd = [Num 0, Num 1, Num (2 / 3)], signal = [Num 0, Num (1 / 2), Num (11 / 18)],
              histogram = [Num 0, Num 0, Num (1 / 18)]\<rparr> ! 2
     = jsSub (Num (2 / 3)) (Num (11 / 18))"
proof -
  have h: "calculateMACD (Array [Num 1, Num 3, Num 4]) 1 2 2
     = Inr \<lparr>macd = [Num 0, Num 1, Num (2 / 3)], signal = [Num 0, Num (1 / 2), Num (11 / 18)],
             histogram = [Num 0, Num 0, Num (1 / 18)]\<rparr>"
    by (simp add: calculateMACD_def calculateEMA_def validatePriceData_def elements_def padArray_def
        numOf_def jsSub_def Let_def upt_rec)
  have i: "2 < length [Num 1, Num 3, Num 4]" by simp
  from C5_histogram_is_difference_after_warmup [OF h i] show ?thesis by simp
qed

lemma validatePriceData_NotArray:
  "validatePriceData NotArray m fn = Inl (Error (fn @ '': Prices must be an array''))"
  by (simp add: validatePriceData_def)

lemma validatePriceData_invalid:
  "m \<le> int (length ps) \<Longrightarrow> list_ex (\<lambda>price. price = Null \<or> price = Undefined \<or> toNumber price = None) ps \<Longrightarrow>
   validatePriceData (Array ps) m fn = Inl (Error (fn @ '': All prices must be valid numbers''))"
  by (simp add: validatePriceData_def)

lemma validatePriceData_short:
  "int (length ps) < m \<Longrightarrow> validatePriceData (Array ps) m fn = Inr False"
  by (simp add: validatePriceData_def)

lemma indicators_reject_non_array:
  "0 < period \<Longrightarrow> 0 < multiplier \<Longrightarrow> 0 < slowPeriod \<Longrightarrow> 0 < signalPeriod \<Longrightarrow>
   calculateEMA NotArray period = Inl (Error ''calculateEMA: Prices must be an array'') \<and>
   calculateRSI NotArray period = Inl (Error ''calculateRSI: Prices must be an array'') \<and>
   calculateBollingerBands NotArray period multiplier
     = Inl (Error ''calculateBollingerBands: Prices must be an array'') \<and>
   calculateMACD NotArray period slowPeriod signalPeriod
     = Inl (Error ''calculateMACD: Prices must be an array'') \<and>
   calculateATR NotArray period = Inl (Error ''calculateATR: Klines must be an array'')"
  by (simp add: calculateEMA_def calculateRSI_def calculateBollingerBands_def calculateMACD_def
        calculateATR_def validatePriceData_NotArray)

lemma indicators_reject_invalid_element:
  assumes "list_ex (\<lambda>price. price = Null \<or> price = Undefined \<or> toNumber price = None) ps"
    and "0 < period" and "0 < multiplier" and "0 < slowPeriod" and "0 < signalPeriod"
  shows "period \<le> int (length ps) \<Longrightarrow>
           calculateEMA (Array ps) period
             = Inl (Error ''calculateEMA: All prices must be valid numbers'')"
    and "period + 1 \<le> int (length ps) \<Longrightarrow>
           calculateRSI (Array ps) period
             = Inl (Error ''calculateRSI: All prices must be valid numbers'')"
    and "period \<le> int (length ps) \<Longrightarrow>
           calculateBollingerBands (Array ps) period multiplier
             = Inl (Error ''calculateBollingerBands: All prices must be valid numbers'')"
    and "max period slowPeriod \<le> int (length ps) \<Longrightarrow>
           calculateMACD (Array ps) period slowPeriod signalPeriod
             = Inl (Error ''calculateMACD: All prices must be valid numbers'')"
  using assms
  by (simp_all add: calculateEMA_def calculateRSI_def calculateBollingerBands_def calculateMACD_def
        validatePriceData_invalid)

lemma indicators_fallback_short:
  assumes "0 < period" and "0 < multiplier" and "0 < slowPeriod" and "0 < signalPeriod"
  shows "int (length ps) < period \<Longrightarrow>
           calculateEMA (Array ps) period
             = Inr (replicate (length ps) (ps ! 0))"
    and "int (length ps) < period + 1 \<Longrightarrow>
           calculateRSI (Array ps) period = Inr (replicate (length ps) (Num 50))"
    and "int (length ps) < period \<Longrightarrow>
           calculateBollingerBands (Array ps) period multiplier
             = Inr \<lparr>upper = replicate (length ps) (jsMul (ps ! 0) (Num (11 / 10))),
                     middle = replicate (length ps) (ps ! 0),
                     lower = replicate (length ps) (jsMul (ps ! 0) (Num (9 / 10)))\<rparr>"
    and "int (length ps) < max period slowPeriod \<Longrightarrow>
           calculateMACD (Array ps) period slowPeriod signalPeriod
             = Inr \<lparr>macd = replicate (length ps) (Num 0), signal = replicate (length ps) (Num 0),
                     histogram = replicate (length ps) (Num 0)\<rparr>"
    and "int (length ks) < period + 1 \<Longrightarrow> calculateATR (Array ks) period = Inr 0"
  using assms
  by (simp_all add: calculateEMA_def calculateRSI_def calculateBollingerBands_def calculateMACD_def
        calculateATR_def validatePriceData_short elements_def padArray_def Let_def)

text \<open>
  C6 (the code against the claim).  An array that is shorter than the minimum length is
  never inspected: with a \<open>null\<close>, \<open>undefined\<close> or \<open>NaN\<close> element, or a kline that is
  not an object, each of the five functions returns its fallback instead of throwing.  The
  EMA fallback even carries the \<open>null\<close>, and the Bollinger fallback is \<open>NaN\<close>.  The same
  \<open>null\<close> in an array of the minimum length is rejected.
\<close>

theorem C6_short_invalid_input_gets_fallback:
  "calculateEMA (Array [Null]) 2 = Inr [Null] \<and>
   calculateRSI (Array [Null]) 14 = Inr [Num 50] \<and>
   calculateBollingerBands (Array [Undefined]) 20 2
     = Inr \<lparr>upper = [NaN], middle = [Undefined], lower = [NaN]\<rparr> \<and>
   calculateMACD (Array [NaN]) 12 26 9
     = Inr \<lparr>macd = [Num 0], signal = [Num 0], histogram = [Num 0]\<rparr> \<and>
   calculateATR (Array [NotObject]) 14 = Inr 0 \<and>
   calculateEMA (Array [Null, Num 1]) 2 = Inl (Error ''calculateEMA: All prices must be valid numbers'')"
  by (simp add: calculateEMA_def calculateRSI_def calculateBollingerBands_def calculateMACD_def
        calculateATR_def validatePriceData_def elements_def padArray_def jsMul_def)

text \<open>
  \<open>calculateATR\<close> tests its klines with \<open>isNaN(Number(...))\<close> alone, so a \<open>null\<close> low
  in an array of sufficient length counts as 0 and a value is returned.
\<close>

lemma calculateATR_null_field:
  "calculateATR (Array [KlineObject (Num 2) (Num 1) (Num 2), KlineObject (Num 3) Null (Num 2)]) 1
     = Inr 3"
  by (simp add: calculateATR_def trueRange_def numOf_def Let_def upt_rec)

lemma padArray_nth:
  "padArray xs n v True ! i = (if i < n - length xs then v else xs ! (i - (n - length xs)))"
  by (simp add: padArray_def Let_def nth_append)

lemma bandAt_ordered:
  assumes "0 < m"
  shows "fst (snd (bandAt xs p m i)) \<le> fst (bandAt xs p m i) \<and>
         snd (snd (bandAt xs p m i)) \<le> fst (snd (bandAt xs p m i))"
proof -
  define window where "window = map (\<lambda>j. xs ! j) [i - (p - 1)..<i + 1]"
  define sma where "sma = sum_list window / real p"
  define ssd where "ssd = sum_list (map (\<lambda>x. (x - sma) ^ 2) window)"
  have "0 \<le> ssd" unfolding ssd_def by (rule sum_list_nonneg) auto
  then have "0 \<le> sqrt (ssd / real p)" by simp
  with assms have nn: "0 \<le> m * sqrt (ssd / real p)" by simp
  have "bandAt xs p m i = (sma + m * sqrt (ssd / real p), sma, sma - m * sqrt (ssd / real p))"
    by (simp only: bandAt_def Let_def window_def sma_def ssd_def)
  then show ?thesis using nn by simp
qed

lemma pad_ordered:
  "jsGe (jsMul (Num x) (Num (11 / 10))) (Num x) = (0 \<le> x) \<and>
   jsGe (Num x) (jsMul (Num x) (Num (9 / 10))) = (0 \<le> x)"
  by (simp add: jsGe_def jsMul_def)

text \<open>
  C8 (as stated, refuted).  For the single price -1 and period 2 the fallback bands are
  upper -1.1, middle -1, lower -0.9: the upper band is below the middle one.  The same
  values pad index 0 of the bands of the prices -1, -1.
\<close>

theorem C8_bands_counterexample:
  "calculateBollingerBands (Array [Num (-1)]) 2 2
     = Inr \<lparr>upper = [Num (- 11 / 10)], middle = [Num (-1)], lower = [Num (- 9 / 10)]\<rparr> \<and>
   \<not> jsGe (Num (- 11 / 10)) (Num (-1)) \<and>
   calculateBollingerBands (Array [Num (-1), Num (-1)]) 2 2
     = Inr \<lparr>upper = [Num (- 11 / 10), Num (-1)], middle = [Num (-1), Num (-1)],
             lower = [Num (- 9 / 10), Num (-1)]\<rparr>"
  by (simp add: calculateBollingerBands_def validatePriceData_def elements_def padArray_def jsMul_def
        jsGe_def bandAt_def numOf_def Let_def upt_rec)

text \<open>
  C8 (amended).  The three returned arrays are as long as the price series.  At every
  computed index (\<open>i \<ge> period - 1\<close> of a series of at least \<open>period\<close> prices) the upper
  value is at least the middle value and the middle value at least the lower one; at a
  padded index, and in the fallback for a short series, this holds when the first price is
  a number that is not negative, and fails on both sides when it is a negative number.
\<close>

theorem C8_bands_ordered:
  assumes "calculateBollingerBands (Array ps) period multiplier = Inr r" and "i < length ps"
  shows "length (upper r) = length ps \<and> length (middle r) = length ps \<and>
         length (lower r) = length ps \<and>
         ((period \<le> int (length ps) \<and> period - 1 \<le> int i) \<or> (\<exists>x\<ge>0. ps ! 0 = Num x)
            \<longrightarrow> jsGe (upper r ! i) (middle r ! i) \<and> jsGe (middle r ! i) (lower r ! i)) \<and>
         ((int (length ps) < period \<or> int i < period - 1) \<and> (\<exists>x<0. ps ! 0 = Num x)
            \<longrightarrow> \<not> jsGe (upper r ! i) (middle r ! i) \<and> \<not> jsGe (middle r ! i) (lower r ! i))"
proof -
  from assms(1) have pos: "0 < period" "0 < multiplier"
    by (simp_all add: calculateBollingerBands_def split: if_splits)
  from assms(1) pos obtain ok where
    ok: "validatePriceData (Array ps) period ''calculateBollingerBands'' = Inr ok"
    by (auto simp: calculateBollingerBands_def split: sum.splits)
  from assms(2) have ne: "0 < length ps" by (cases ps) simp_all
  let ?d = "ps ! 0"
  show ?thesis
  proof (cases ok)
    case False
    with ok have short: "int (length ps) < period"
      by (auto simp: validatePriceData_def split: if_splits)
    from assms(1) pos ok False ne
    have r: "r = \<lparr>upper = replicate (length ps) (jsMul ?d (Num (11 / 10))),
                   middle = replicate (length ps) ?d,
                   lower = replicate (length ps) (jsMul ?d (Num (9 / 10)))\<rparr>"
      by (simp add: calculateBollingerBands_def elements_def Let_def)
    show ?thesis using short assms(2) pad_ordered by (auto simp: r)
  next
    case True
    with ok have long: "period \<le> int (length ps)"
      by (rule_tac validatePriceData_True) simp
    define p where "p = nat period"
    define xs where "xs = map numOf ps"
    define rounds where "rounds = map (bandAt xs p multiplier) [p - 1..<length xs]"
    have p: "0 < p" "p \<le> length ps" "period = int p" using pos long by (simp_all add: p_def)
    have lr: "length rounds = length ps - (p - 1)" by (simp add: rounds_def xs_def)
    have pad: "length ps - length rounds = p - 1" using p lr by simp
    from assms(1) pos ok True ne
    have r: "r = \<lparr>upper = padArray (map (\<lambda>r. Num (fst r)) rounds) (length ps)
                              (jsMul ?d (Num (11 / 10))) True,
                   middle = padArray (map (\<lambda>r. Num (fst (snd r))) rounds) (length ps) ?d True,
                   lower = padArray (map (\<lambda>r. Num (snd (snd r))) rounds) (length ps)
                              (jsMul ?d (Num (9 / 10))) True\<rparr>"
      by (simp add: calculateBollingerBands_def elements_def Let_def rounds_def xs_def p_def)
    have len: "length (upper r) = length ps \<and> length (middle r) = length ps \<and>
               length (lower r) = length ps"
      using lr by (simp add: r padArray_length)
    show ?thesis
    proof (cases "i < p - 1")
      case True
      then have "upper r ! i = jsMul ?d (Num (11 / 10))" "middle r ! i = ?d"
        "lower r ! i = jsMul ?d (Num (9 / 10))"
        using pad by (simp_all add: r padArray_nth)
      then show ?thesis using len True p pad_ordered by auto
    next
      case False
      then have j: "i - (p - 1) < length rounds" using assms(2) lr by simp
      have at: "rounds ! (i - (p - 1)) = bandAt xs p multiplier i"
        using j False by (simp add: rounds_def)
      have "upper r ! i = Num (fst (bandAt xs p multiplier i))"
        "middle r ! i = Num (fst (snd (bandAt xs p multiplier i)))"
        "lower r ! i = Num (snd (snd (bandAt xs p multiplier i)))"
        using False pad j at by (simp_all add: r padArray_nth)
      then have "jsGe (upper r ! i) (middle r ! i) \<and> jsGe (middle r ! i) (lower r ! i)"
        using bandAt_ordered [OF pos(2), of xs p i] by (simp add: jsGe_def)
      then show ?thesis using len False p by auto
    qed
  qed
qed

theorem C8_bands_ordered_witness:
  "jsGe (Num (11 / 5)) (Num 2) \<and> jsGe (Num 2) (Num (9 / 5)) \<and>
   jsGe (Num 4) (Num 3) \<and> jsGe (Num 3) (Num 2)"
proof -
  have h: "calculateBollingerBands (Array [Num 2, Num 4]) 2 1
     = Inr \<lparr>upper = [Num (11 / 5), Num 4], middle = [Num 2, Num 3], lower = [Num (9 / 5), Num 2]\<rparr>"
    by (simp add: calculateBollingerBands_def validatePriceData_def elements_def padArray_def jsMul_def
        bandAt_def numOf_def Let_def upt_rec power2_eq_square)
  have i0: "0 < length [Num 2, Num 4]" and i1: "1 < length [Num 2, Num 4]" by simp_all
  from C8_bands_ordered [OF h i0] C8_bands_ordered [OF h i1] show ?thesis by simp
qed


section \<open>Properties of the prediction service\<close>

text \<open>
  C10.  \<open>normalizeValue\<close> is a total function into the interval from 0 to 1: it gives
  1/2 for \<open>null\<close>, \<open>undefined\<close> and \<open>NaN\<close> and for a range with \<open>min \<ge> max\<close>, 0 for a
  number below the range, 1 for a number above it, and the linear position of a number
  inside it.
\<close>

theorem C10_normalizeValue_in_unit_interval:
  "0 \<le> normalizeValue v mn mx \<and> normalizeValue v mn mx \<le> 1 \<and>
   normalizeValue Null mn mx = 1 / 2 \<and>
   normalizeValue Undefined mn mx = 1 / 2 \<and>
   normalizeValue NaN mn mx = 1 / 2 \<and>
   normalizeValue (Num x) mn mx =
     (if mn \<ge> mx then 1 / 2
      else if x < mn then 0
      else if x > mx then 1
      else (x - mn) / (mx - mn))"
proof -
  have bounds: "0 \<le> normalizeValue v mn mx \<and> normalizeValue v mn mx \<le> 1"
  proof (cases "v = Null \<or> v = Undefined \<or> toNumber v = None \<or> mn \<ge> mx")
    case True
    then show ?thesis by (auto simp: normalizeValue_def)
  next
    case False
    then have lt: "mn < mx" by simp
    define c where "c = max mn (min mx (numOf v))"
    have "mn \<le> c" and "c \<le> mx" using lt by (auto simp: c_def)
    then have "0 \<le> (c - mn) / (mx - mn)" and "(c - mn) / (mx - mn) \<le> 1"
      using lt by (auto simp: divide_simps)
    then show ?thesis using False by (simp add: normalizeValue_def c_def Let_def)
  qed
  have vals: "normalizeValue (Num x) mn mx =
     (if mn \<ge> mx then 1 / 2 else if x < mn then 0 else if x > mx then 1
      else (x - mn) / (mx - mn))"
    by (auto simp: normalizeValue_def numOf_def Let_def max_def min_def)
  show ?thesis using bounds vals by (simp add: normalizeValue_def)
qed

lemma cacheDelete_length: "length (cacheDelete c s) \<le> length c"
  by (simp add: cacheDelete_def)

lemma cacheDelete_hd_length: "c \<noteq> [] \<Longrightarrow> length (cacheDelete c (fst (hd c))) < length c"
  by (cases c) (auto simp: cacheDelete_def intro: le_imp_less_Suc)

lemma cacheHas_delete: "\<not> cacheHas c s \<Longrightarrow> \<not> cacheHas (cacheDelete c k) s"
  by (auto simp: cacheHas_def cacheDelete_def)

lemma cacheSet_new_length: "\<not> cacheHas c s \<Longrightarrow> length (cacheSet c s m) = Suc (length c)"
  by (simp add: cacheSet_def)

lemma cacheStep_bound: "length c \<le> 51 \<Longrightarrow> length (cacheStep c e) \<le> 51"
proof (cases e)
  case (Predict s net)
  assume le: "length c \<le> 51"
  show ?thesis
  proof (cases "cacheHas c s")
    case True
    then show ?thesis using le Predict by (simp add: predictPriceChange_cache_def)
  next
    case False
    show ?thesis
    proof (cases "length c > 50")
      case True
      then have "c \<noteq> []" by auto
      from cacheDelete_hd_length [OF this] le
      have "length (cacheDelete c (fst (hd c))) \<le> 50" by simp
      moreover have "\<not> cacheHas (cacheDelete c (fst (hd c))) s" using False by (rule cacheHas_delete)
      ultimately show ?thesis using Predict False True
        by (simp add: predictPriceChange_cache_def cacheSet_new_length)
    next
      case F: False
      then show ?thesis using Predict False
        by (simp add: predictPriceChange_cache_def cacheSet_new_length)
    qed
  qed
next
  case (Train s)
  assume "length c \<le> 51"
  then show ?thesis using Train cacheDelete_length [of c s]
    by (simp add: trainModelForSymbol_cache_def)
qed

lemma cacheRun_bound_aux: "length c \<le> 51 \<Longrightarrow> length (foldl cacheStep c events) \<le> 51"
  by (induction events arbitrary: c) (simp_all add: cacheStep_bound)

lemma cacheRun_bound: "length (cacheRun events) \<le> 51"
  by (simp add: cacheRun_def cacheRun_bound_aux)

text \<open>
  C7 (the code against the claim).  Predictions for 51 different symbols, from an empty
  cache, leave 51 models in the cache: the eviction test is \<open>size > 50\<close> and comes
  before the insertion.  By \<open>cacheRun_bound\<close> 51 is the most the cache ever holds.
\<close>

theorem C7_cache_holds_51_models:
  "length (cacheRun (map (\<lambda>n. Predict (replicate (Suc n) CHR ''A'') n) [0..<51])) = 51"
  by code_simp

lemma ensemblePrediction_ignores_birthtime:
  "ensemblePrediction ready (map (\<lambda>d. d\<lparr>birthtime := t d\<rparr>) listing) run
     = ensemblePrediction ready listing run"
  by (simp add: ensemblePrediction_def filter_map take_map o_def)

lemma weightedSums_two: "weightedSums [a, b] = (a * 2 + b, 3)"
  by (simp add: weightedSums_def upt_rec)

lemma weightedSums_five: "weightedSums [a, b, c, d, e] = (a * 5 + b * 4 + c * 3 + d * 2 + e, 15)"
  by (simp add: weightedSums_def upt_rec)

text \<open>
  C4 (the code against the claim).  The directory listing is not sorted, and by
  \<open>ensemblePrediction_ignores_birthtime\<close> the creation times play no part: the first
  five entries are taken and the first of them gets the largest weight.  With two versions
  listed by name, whose outputs are 0 (older) and 3 (newer), the result is 1, the older
  version weighing 2; the recency-weighted average is 2.  With six versions the newest is
  not among the five selected: with the outputs 0, 0, 0, 0, 0, 6 the result is 0 where the
  recency-weighted average of the five most recent is 2.
\<close>

theorem C4_first_listed_version_weighs_most:
  "map_option prediction
     (ensemblePrediction True twoVersions
        (\<lambda>n. if n = ''v2024-02-01T00-00-00-000Z-002'' then 3 else 0)) = Some 1 \<and>
   recencyWeightedAverage [(1, 0), (2, 3)] = 2 \<and>
   map_option individualPredictions
     (ensemblePrediction True sixVersions
        (\<lambda>n. if n = ''v2024-06-01T00-00-00-000Z-006'' then 6 else 0)) = Some [0, 0, 0, 0, 0] \<and>
   map_option prediction
     (ensemblePrediction True sixVersions
        (\<lambda>n. if n = ''v2024-06-01T00-00-00-000Z-006'' then 6 else 0)) = Some 0 \<and>
   recencyWeightedAverage [(1, 0), (2, 0), (3, 0), (4, 0), (5, 0), (6, 6)] = 2"
  by (simp add: ensemblePrediction_def twoVersions_def sixVersions_def versionDir_def
        weightedSums_two weightedSums_five Let_def recencyWeightedAverage_def upt_rec)

end
